theory Spec2Isabelle
  imports Complex_Main "HOL-Library.Word"
begin

section \<open>SlotWatch Pro: the monitoring engine of \<open>src/background.ts\<close>\<close>

text \<open>
  The embedding follows the pixel-comparison service worker (the second program text of
  \<open>src/background.ts\<close>, the one that defines \<open>compareScreenshots\<close>).

  \<^item> JavaScript numbers are IEEE doubles. The model computes with exact rationals
    (\<^typ>\<open>rat\<close>) and adds the one non-finite value the comparison can produce
    (\<open>NaN\<close>, from \<open>0 / 0\<close>). Counts and byte values are integers and exact in both;
    the quotient \<open>diffPixels / sampledPixels\<close>, its product with 100 and the decimal
    rounding of \<open>toFixed(2)\<close> are taken without the binary rounding error of doubles.
    The two agree on every value evaluated below (0, 100, 400 and 5100/1019) and on the
    comparison with the threshold; where the exact percentage is a decimal tie the
    double product can fall just below it (23 of 160 positions: 14.374999999999998 for
    14.375), and \<open>toFixed(2)\<close> then prints the lower hundredth.
  \<^item> \<open>chrome.storage.local\<close> and the alarm slot \<open>slotwatch_monitor\<close> are the state of the
    model; reading and writing them always returns, so the \<open>catch\<close> blocks of
    \<open>startMonitoring\<close> and \<open>stopMonitoring\<close>, which guard only those calls, have no
    branch here.
  \<^item> The browser calls whose failure the check cycle handles (tab query, reload, capture,
    PNG decoding, \<open>fetch\<close>, \<open>chrome.notifications.create\<close>) are answers of a
    \<open>host\<close> record, and every call the cycle issues is an event of its trace.
\<close>

subsection \<open>Data model\<close>

type_synonym byte = "8 word"

text \<open>\<open>ImageData\<close>: \<open>data\<close> is the \<open>Uint8ClampedArray\<close> of RGBA bytes.\<close>

record ImageData =
  width :: nat
  height :: nat
  data :: "byte list"

datatype jsnumber = Finite rat | NaN

text \<open>
  \<open>ComparisonResult\<close> as \<open>compareScreenshots\<close> builds it (the object literal carries
  \<open>changePercentage\<close>, which the interface of \<open>types.ts\<close> does not list).
\<close>

record ComparisonResult =
  hasChanged :: bool
  changePercentage :: jsnumber
  detectedText :: string
  missingPhrases :: "string list"

text \<open>A thrown \<open>Error\<close> with its message.\<close>

datatype thrown = Error string

record TelegramConfig =
  botToken :: string
  chatId :: string

text \<open>The reference object that \<open>captureReference\<close> stores.\<close>

record ReferenceSnapshot =
  url :: string
  timestamp :: int
  screenshot :: string
  keyPhrases :: "string list"

record MonitoringConfig =
  isActive :: bool
  intervalMin :: int
  intervalMax :: int
  autoRefresh :: bool
  refreshDelay :: int
  lastCheckTime :: "int option"

text \<open>
  \<open>Partial<StorageData>\<close>: every key may be absent. The key \<open>keywords\<close> is the
  field \<open>keywords'\<close> (the plain name is reserved in theory headers).
\<close>

record StorageData =
  telegram :: "TelegramConfig option"
  reference :: "ReferenceSnapshot option"
  monitoring :: "MonitoringConfig option"
  keywords' :: "string list option"

text \<open>
  \<open>MessageResponse\<close>; its \<open>data\<close> field is called \<open>responseData\<close> here (the name
  \<open>data\<close> is the pixel array of \<open>ImageData\<close>). The operations modelled below put
  a \<open>MonitoringConfig\<close> there or leave it out.
\<close>

record MessageResponse =
  success :: bool
  responseData :: "MonitoringConfig option"
  error :: "string option"

text \<open>
  The state the engine works on: the extension's storage and the alarm
  \<open>slotwatch_monitor\<close> (\<open>Some\<close> of its delay and period in minutes when armed).
\<close>

record world =
  storage :: StorageData
  alarm :: "rat option"

subsection \<open>Constants\<close>

definition DEFAULT_INTERVAL_MIN :: int where
  "DEFAULT_INTERVAL_MIN = 40"

definition DEFAULT_INTERVAL_MAX :: int where
  "DEFAULT_INTERVAL_MAX = 125"

definition DEFAULT_REFRESH_DELAY :: int where
  "DEFAULT_REFRESH_DELAY = 3000"

definition CHANGE_THRESHOLD :: rat where
  "CHANGE_THRESHOLD = 5"

subsection \<open>The Differ: \<open>base64ToImageData\<close> and \<open>compareScreenshots\<close>\<close>

text \<open>\<open>xs[i] ?? 0\<close>: a read past the end of the array is \<open>undefined\<close>, replaced by 0.\<close>

definition byteAt :: "byte list \<Rightarrow> nat \<Rightarrow> int" where
  "byteAt xs i = (if i < length xs then uint (xs ! i) else 0)"

text \<open>The body of the loop: the three channel differences at byte offset \<open>i\<close>.\<close>

definition channelsDiffer :: "byte list \<Rightarrow> byte list \<Rightarrow> nat \<Rightarrow> bool" where
  "channelsDiffer refData curData i =
     (let rDiff = \<bar>byteAt refData i - byteAt curData i\<bar>;
          gDiff = \<bar>byteAt refData (i + 1) - byteAt curData (i + 1)\<bar>;
          bDiff = \<bar>byteAt refData (i + 2) - byteAt curData (i + 2)\<bar>
      in rDiff > 30 \<or> gDiff > 30 \<or> bDiff > 30)"

text \<open>
  \<^verbatim>\<open>for (let i = 0; i < refData.length - 3; i += 16) { if (i + 2 >= curData.length) break; ... }\<close>
  The guard \<open>i < refData.length - 3\<close> is written \<open>i + 3 < length refData\<close>: the
  JavaScript difference can be negative, the one of \<^typ>\<open>nat\<close> cannot.
\<close>

function diffLoop :: "byte list \<Rightarrow> byte list \<Rightarrow> nat \<Rightarrow> nat \<Rightarrow> nat" where
  "diffLoop refData curData i diffPixels =
     (if i + 3 < length refData then
        (if length curData \<le> i + 2 then diffPixels
         else diffLoop refData curData (i + 16)
                (if channelsDiffer refData curData i then diffPixels + 1 else diffPixels))
      else diffPixels)"
  by pat_completeness auto
termination
  by (relation "measure (\<lambda>(r, c, i, d). length r - i)") auto

declare diffLoop.simps [simp del]

text \<open>
  \<open>parseFloat(x.toFixed(2))\<close> for \<open>x \<ge> 0\<close>: the nearest multiple of 1/100, the larger
  one at a tie.
\<close>

definition toFixed2 :: "rat \<Rightarrow> rat" where
  "toFixed2 x = of_int \<lfloor>x * 100 + 1 / 2\<rfloor> / 100"

definition jsToFixed2 :: "jsnumber \<Rightarrow> jsnumber" where
  "jsToFixed2 x = (case x of Finite q \<Rightarrow> Finite (toFixed2 q) | NaN \<Rightarrow> NaN)"

text \<open>\<open>x > t\<close> on numbers: false when \<open>x\<close> is \<open>NaN\<close>.\<close>

definition jsGreater :: "jsnumber \<Rightarrow> rat \<Rightarrow> bool" where
  "jsGreater x t = (case x of Finite q \<Rightarrow> t < q | NaN \<Rightarrow> False)"

text \<open>\<open>base64.includes(',') ? base64.split(',')[1] : base64\<close>\<close>

definition stripDataUrl :: "string \<Rightarrow> string" where
  "stripDataUrl base64 =
     (if CHR '','' \<in> set base64
      then takeWhile (\<lambda>c. c \<noteq> CHR '','') (tl (dropWhile (\<lambda>c. c \<noteq> CHR '','') base64))
      else base64)"

text \<open>
  \<open>base64ToImageData\<close>. The browser's part (\<open>atob\<close>, \<open>createImageBitmap\<close>, the
  \<open>OffscreenCanvas\<close> and \<open>getImageData\<close>) is the parameter \<open>decodePng\<close>, \<open>None\<close>
  when any of them throws. Every failure is rethrown with the same message.
\<close>

definition base64ToImageData ::
  "(string \<Rightarrow> ImageData option) \<Rightarrow> string \<Rightarrow> thrown + ImageData" where
  "base64ToImageData decodePng base64 =
     (let base64Data = stripDataUrl base64 in
      if base64Data = [] then Inl (Error ''Unable to download all specified images'')
      else (case decodePng base64Data of
              None \<Rightarrow> Inl (Error ''Unable to download all specified images'')
            | Some img \<Rightarrow> Inr img))"

text \<open>
  The part of \<open>compareScreenshots\<close> after the dimension check. \<open>sampledPixels\<close> is 0
  only for an empty array, where the loop does not run and \<open>0 / 0\<close> is \<open>NaN\<close>.
\<close>

definition comparePixels :: "byte list \<Rightarrow> byte list \<Rightarrow> ComparisonResult" where
  "comparePixels refData curData =
     (let diffPixels = diffLoop refData curData 0 0;
          totalPixels = (of_nat (length refData) :: rat) / 4;
          sampledPixels = totalPixels / 4;
          changePercentage =
            (if sampledPixels = 0 then NaN
             else Finite ((of_nat diffPixels / sampledPixels) * 100))
      in \<lparr> hasChanged = jsGreater changePercentage CHANGE_THRESHOLD,
           changePercentage = jsToFixed2 changePercentage,
           detectedText = [],
           missingPhrases =
             (if jsGreater changePercentage CHANGE_THRESHOLD
              then [''Visual changes detected''] else []) \<rparr>)"

definition compareScreenshots ::
  "(string \<Rightarrow> ImageData option) \<Rightarrow> string \<Rightarrow> string \<Rightarrow> thrown + ComparisonResult" where
  "compareScreenshots decodePng referenceBase64 currentBase64 =
     (case base64ToImageData decodePng referenceBase64 of
        Inl e \<Rightarrow> Inl (Error ''Failed to compare screenshots'')
      | Inr refImageData \<Rightarrow>
          (case base64ToImageData decodePng currentBase64 of
             Inl e \<Rightarrow> Inl (Error ''Failed to compare screenshots'')
           | Inr curImageData \<Rightarrow>
               if width refImageData \<noteq> width curImageData
                  \<or> height refImageData \<noteq> height curImageData
               then Inr \<lparr> hasChanged = True, changePercentage = Finite 100,
                          detectedText = [], missingPhrases = [''Page layout changed''] \<rparr>
               else Inr (comparePixels (data refImageData) (data curImageData))))"

subsection \<open>The Differ as the specification words it\<close>

text \<open>
  An image sample: positive dimensions and four bytes per pixel, which is what
  \<open>getImageData\<close> returns.
\<close>

definition wellFormed :: "ImageData \<Rightarrow> bool" where
  "wellFormed img =
     (0 < width img \<and> 0 < height img \<and> length (data img) = 4 * (width img * height img))"

text \<open>
  The sampled positions of an image of \<open>n\<close> pixels: every fourth pixel from pixel 0
  (the loop's byte stride of 16 is four pixels of four bytes).
\<close>

definition sampledPositions :: "nat \<Rightarrow> nat list" where
  "sampledPositions n = map (\<lambda>k. 4 * k) [0..<(n + 3) div 4]"

text \<open>
  A position is different when the red, green or blue channel differs by more than the
  tolerance 30 (pixel \<open>p\<close> occupies the bytes \<open>4p .. 4p + 3\<close>).
\<close>

definition positionDiffers :: "byte list \<Rightarrow> byte list \<Rightarrow> nat \<Rightarrow> bool" where
  "positionDiffers refData curData p =
     (30 < \<bar>uint (refData ! (4 * p)) - uint (curData ! (4 * p))\<bar>
      \<or> 30 < \<bar>uint (refData ! (4 * p + 1)) - uint (curData ! (4 * p + 1))\<bar>
      \<or> 30 < \<bar>uint (refData ! (4 * p + 2)) - uint (curData ! (4 * p + 2))\<bar>)"

definition differentPositions :: "ImageData \<Rightarrow> ImageData \<Rightarrow> nat list" where
  "differentPositions ref cur =
     filter (positionDiffers (data ref) (data cur)) (sampledPositions (width ref * height ref))"

text \<open>\<open>100 * (different positions) / (sampled positions)\<close>, before rounding.\<close>

definition spec_rawPercentage :: "ImageData \<Rightarrow> ImageData \<Rightarrow> rat" where
  "spec_rawPercentage ref cur =
     100 * of_nat (length (differentPositions ref cur))
       / of_nat (length (sampledPositions (width ref * height ref)))"

text \<open>\<open>changeMagnitude\<close>: that quotient rounded to 2 decimal places.\<close>

definition spec_changeMagnitude :: "ImageData \<Rightarrow> ImageData \<Rightarrow> rat" where
  "spec_changeMagnitude ref cur = toFixed2 (spec_rawPercentage ref cur)"


subsection \<open>The Monitor Engine: start, stop, status\<close>

text \<open>\<open>x || d\<close> on a number: \<open>d\<close> when \<open>x\<close> is 0.\<close>

definition orDefault :: "int \<Rightarrow> int \<Rightarrow> int" where
  "orDefault x d = (if x = 0 then d else x)"

text \<open>
  The object literal that \<open>startMonitoring\<close>, \<open>stopMonitoring\<close> and
  \<open>checkForChanges\<close> build from the stored config \<open>m\<close>:
  \<^verbatim>\<open>{ ...(m || {}), isActive: a, intervalMin: m?.intervalMin || DEFAULT_INTERVAL_MIN,
     intervalMax: m?.intervalMax || DEFAULT_INTERVAL_MAX, autoRefresh: m?.autoRefresh ?? true,
     refreshDelay: m?.refreshDelay || DEFAULT_REFRESH_DELAY }\<close>
  The spread keeps \<open>lastCheckTime\<close>.
\<close>

definition rebuildConfig :: "MonitoringConfig option \<Rightarrow> bool \<Rightarrow> MonitoringConfig" where
  "rebuildConfig m a =
     (case m of
        None \<Rightarrow>
          \<lparr> isActive = a, intervalMin = DEFAULT_INTERVAL_MIN, intervalMax = DEFAULT_INTERVAL_MAX,
            autoRefresh = True, refreshDelay = DEFAULT_REFRESH_DELAY, lastCheckTime = None \<rparr>
      | Some c \<Rightarrow>
          \<lparr> isActive = a,
            intervalMin = orDefault (intervalMin c) DEFAULT_INTERVAL_MIN,
            intervalMax = orDefault (intervalMax c) DEFAULT_INTERVAL_MAX,
            autoRefresh = autoRefresh c,
            refreshDelay = orDefault (refreshDelay c) DEFAULT_REFRESH_DELAY,
            lastCheckTime = lastCheckTime c \<rparr>)"





definition stopMonitoring :: "world \<Rightarrow> MessageResponse \<times> world" where
  "stopMonitoring w =
     (let d = storage w;
          config = rebuildConfig (monitoring d) False
      in (\<lparr> success = True, responseData = None, error = None \<rparr>,
          \<lparr> storage = d\<lparr> monitoring := Some config \<rparr>, alarm = None \<rparr>))"

definition getStatus :: "world \<Rightarrow> MessageResponse" where
  "getStatus w = \<lparr> success = True, responseData = monitoring (storage w), error = None \<rparr>"

subsection \<open>The check cycle\<close>

text \<open>The outcome of \<open>fetch\<close>: a response with its \<open>ok\<close> flag, or a rejection.\<close>

datatype fetch_outcome = Responds bool | Rejects

text \<open>A tab as the cycle reads it: its optional \<open>id\<close>.\<close>

record tab =
  tabId :: "int option"

text \<open>What the browser answers during one cycle.\<close>

record host =
  dateNow :: int
  queryActiveTab :: "tab option"
  reloadResolves :: bool
  captureVisibleTab :: "string option"
  pngDecoder :: "string \<Rightarrow> ImageData option"
  fetchOutcome :: fetch_outcome
  notificationResolves :: bool

text \<open>
  The calls a cycle issues, in order. \<open>TelegramPost\<close> carries the bot token, the chat id
  and the percentage of the message text; \<open>NotificationCreate\<close> the percentage of the
  local notification. The console lines of \<open>checkForChanges\<close>,
  \<open>sendTelegramNotification\<close> and \<open>showBrowserNotification\<close> are events too.
\<close>

datatype event =
    TabReload int
  | SettleDelay int
  | CaptureTab
  | StorageSet MonitoringConfig
  | TelegramPost string string jsnumber
  | NotificationCreate jsnumber
  | ConsoleLog string
  | ConsoleError string

text \<open>
  \<open>sendTelegramNotification\<close>. The URL is built from \<open>config.botToken\<close> before the
  \<open>try\<close>: with no config object that read throws a \<open>TypeError\<close> to the caller.
  Inside the \<open>try\<close>, a response that is not ok and a rejected \<open>fetch\<close> are both
  logged and the function returns.
\<close>

definition sendTelegramNotification ::
  "host \<Rightarrow> TelegramConfig option \<Rightarrow> ComparisonResult \<Rightarrow> event list \<times> (thrown + unit)" where
  "sendTelegramNotification h config comparison =
     (case config of
        None \<Rightarrow> ([], Inl (Error ''Cannot read properties of undefined''))
      | Some c \<Rightarrow>
          (case fetchOutcome h of
             Responds ok \<Rightarrow>
               ([TelegramPost (botToken c) (chatId c) (changePercentage comparison),
                 if ok then ConsoleLog ''Telegram notification sent''
                 else ConsoleError ''Telegram error''], Inr ())
           | Rejects \<Rightarrow>
               ([TelegramPost (botToken c) (chatId c) (changePercentage comparison),
                 ConsoleError ''Telegram error''], Inr ())))"

text \<open>\<open>showBrowserNotification\<close> has no \<open>try\<close>: a rejected call throws.\<close>

definition showBrowserNotification ::
  "host \<Rightarrow> ComparisonResult \<Rightarrow> event list \<times> (thrown + unit)" where
  "showBrowserNotification h comparison =
     (if notificationResolves h
      then ([NotificationCreate (changePercentage comparison),
             ConsoleLog ''Browser notification shown''], Inr ())
      else ([NotificationCreate (changePercentage comparison)],
            Inl (Error ''notifications.create rejected'')))"

text \<open>
  The block \<open>if (comparison.hasChanged) { ... }\<close> of \<open>checkForChanges\<close>: the two
  awaited calls in sequence.
\<close>

definition dispatchNotifications ::
  "host \<Rightarrow> TelegramConfig option \<Rightarrow> ComparisonResult \<Rightarrow> event list \<times> (thrown + unit)" where
  "dispatchNotifications h config comparison =
     (if hasChanged comparison then
        (case sendTelegramNotification h config comparison of
           (ev1, Inl e) \<Rightarrow> (ConsoleLog ''Changes detected! Sending notifications...'' # ev1, Inl e)
         | (ev1, Inr u) \<Rightarrow>
             (case showBrowserNotification h comparison of
                (ev2, r) \<Rightarrow>
                  (ConsoleLog ''Changes detected! Sending notifications...'' # ev1 @ ev2, r)))
      else ([], Inr ()))"

text \<open>
  The steps of \<open>checkForChanges\<close> between the tab check and the storage write: the
  optional reload and settle delay, the capture and the comparison. The result is the
  trace and the comparison, or the error that sends control to the \<open>catch\<close>.
\<close>

definition captureAndCompare ::
  "host \<Rightarrow> ReferenceSnapshot \<Rightarrow> MonitoringConfig \<Rightarrow> int
     \<Rightarrow> event list \<times> (thrown + ComparisonResult)" where
  "captureAndCompare h ref m tid =
     (if autoRefresh m \<and> \<not> reloadResolves h
      then ([TabReload tid], Inl (Error ''tabs.reload rejected''))
      else
        (let ev = (if autoRefresh m
                   then [TabReload tid, SettleDelay (orDefault (refreshDelay m) DEFAULT_REFRESH_DELAY)]
                   else []) @ [CaptureTab]
         in case captureVisibleTab h of
              None \<Rightarrow> (ev, Inl (Error ''captureVisibleTab rejected''))
            | Some shot \<Rightarrow> (ev, compareScreenshots (pngDecoder h) (screenshot ref) shot)))"

text \<open>\<open>!activeTab || !activeTab.id\<close>: no tab, no id, or the id 0.\<close>

definition resolveTab :: "tab option \<Rightarrow> int option" where
  "resolveTab t =
     (case t of
        None \<Rightarrow> None
      | Some a \<Rightarrow> (case tabId a of None \<Rightarrow> None | Some i \<Rightarrow> if i = 0 then None else Some i))"

text \<open>\<open>data.monitoring?.isActive\<close> as a condition.\<close>

definition monitoringActive :: "MonitoringConfig option \<Rightarrow> bool" where
  "monitoringActive m = (case m of None \<Rightarrow> False | Some c \<Rightarrow> isActive c)"

text \<open>
  \<open>checkForChanges\<close>: the new state and the trace of the cycle. Whatever is thrown
  inside the \<open>try\<close> ends the cycle in the \<open>catch\<close>, which logs \<open>Check error\<close>.
\<close>

definition checkForChanges :: "host \<Rightarrow> world \<Rightarrow> world \<times> event list" where
  "checkForChanges h w =
     (let d = storage w in
      case reference d of
        None \<Rightarrow> (w, [])
      | Some ref \<Rightarrow>
          (case monitoring d of
             None \<Rightarrow> (w, [])
           | Some m \<Rightarrow>
               if \<not> isActive m then (w, [])
               else
                 (case resolveTab (queryActiveTab h) of
                    None \<Rightarrow> (w, [ConsoleLog ''No active tab found''])
                  | Some tid \<Rightarrow>
                      (case captureAndCompare h ref m tid of
                         (ev, Inl e) \<Rightarrow> (w, ev @ [ConsoleError ''Check error''])
                       | (ev, Inr comparison) \<Rightarrow>
                           (let config = (rebuildConfig (Some m) (isActive m))
                                           \<lparr> lastCheckTime := Some (dateNow h) \<rparr>;
                                w' = w\<lparr> storage := d\<lparr> monitoring := Some config \<rparr> \<rparr>;
                                ev' = ev @ [ConsoleLog ''Comparison result'', StorageSet config]
                            in case dispatchNotifications h (telegram d) comparison of
                                 (evn, Inl e) \<Rightarrow> (w', ev' @ evn @ [ConsoleError ''Check error''])
                               | (evn, Inr u) \<Rightarrow> (w', ev' @ evn))))))"


subsection \<open>Sample images\<close>

definition img_black_1x1 :: ImageData where
  "img_black_1x1 = \<lparr> width = 1, height = 1, data = [0, 0, 0, 255] \<rparr>"

definition img_white_1x1 :: ImageData where
  "img_white_1x1 = \<lparr> width = 1, height = 1, data = [255, 255, 255, 255] \<rparr>"

definition img_black_2x2 :: ImageData where
  "img_black_2x2 =
     \<lparr> width = 2, height = 2,
       data = [0, 0, 0, 255, 0, 0, 0, 255, 0, 0, 0, 255, 0, 0, 0, 255] \<rparr>"

definition img_corner_2x2 :: ImageData where
  "img_corner_2x2 =
     \<lparr> width = 2, height = 2,
       data = [255, 255, 255, 255, 0, 0, 0, 255, 0, 0, 0, 255, 0, 0, 0, 255] \<rparr>"

text \<open>
  Two strips of 4076 pixels (1019 sampled positions): one all zero, one whose first
  816 bytes (the first 51 sampled positions among them) are 255.
\<close>

definition img_strip_ref :: ImageData where
  "img_strip_ref = \<lparr> width = 4076, height = 1, data = replicate 16304 0 \<rparr>"

definition img_strip_cur :: ImageData where
  "img_strip_cur =
     \<lparr> width = 4076, height = 1, data = replicate 816 255 @ replicate 15488 0 \<rparr>"

text \<open>A window of 101 by 99 pixels (9999 pixels, 2500 sampled positions), black and white.\<close>

definition img_black_101x99 :: ImageData where
  "img_black_101x99 = \<lparr> width = 101, height = 99, data = replicate 39996 0 \<rparr>"

definition img_white_101x99 :: ImageData where
  "img_white_101x99 = \<lparr> width = 101, height = 99, data = replicate 39996 255 \<rparr>"

text \<open>A decoder that knows these images by name.\<close>

definition sampleDecoder :: "string \<Rightarrow> ImageData option" where
  "sampleDecoder s =
     (if s = ''black1x1'' then Some img_black_1x1
      else if s = ''white1x1'' then Some img_white_1x1
      else if s = ''black2x2'' then Some img_black_2x2
      else if s = ''corner2x2'' then Some img_corner_2x2
      else if s = ''stripRef'' then Some img_strip_ref
      else if s = ''stripCur'' then Some img_strip_cur
      else if s = ''black101x99'' then Some img_black_101x99
      else if s = ''white101x99'' then Some img_white_101x99
      else None)"

text \<open>Sample states of the extension and sample answers of the browser.\<close>

definition sampleReference :: ReferenceSnapshot where
  "sampleReference =
     \<lparr> url = ''https://example.org/slots'', timestamp = 1000,
       screenshot = ''data:image/png;base64,black2x2'', keyPhrases = [] \<rparr>"

definition sampleTelegram :: TelegramConfig where
  "sampleTelegram = \<lparr> botToken = ''123456:token'', chatId = ''42'' \<rparr>"

definition sampleConfig :: "bool \<Rightarrow> MonitoringConfig" where
  "sampleConfig a =
     \<lparr> isActive = a, intervalMin = 40, intervalMax = 125, autoRefresh = True,
       refreshDelay = 3000, lastCheckTime = Some 1000 \<rparr>"

definition world_idle :: world where
  "world_idle =
     \<lparr> storage = \<lparr> telegram = None, reference = None, monitoring = None, keywords' = None \<rparr>,
       alarm = None \<rparr>"


definition world_armed :: world where
  "world_armed =
     \<lparr> storage = \<lparr> telegram = Some sampleTelegram, reference = Some sampleReference,
                   monitoring = Some (sampleConfig False), keywords' = None \<rparr>,
       alarm = None \<rparr>"

definition world_active :: world where
  "world_active =
     \<lparr> storage = \<lparr> telegram = Some sampleTelegram, reference = Some sampleReference,
                   monitoring = Some (sampleConfig True), keywords' = None \<rparr>,
       alarm = Some 1 \<rparr>"


definition host_changed :: host where
  "host_changed =
     \<lparr> dateNow = 2000, queryActiveTab = Some \<lparr> tabId = Some 7 \<rparr>, reloadResolves = True,
       captureVisibleTab = Some ''data:image/png;base64,corner2x2'',
       pngDecoder = sampleDecoder, fetchOutcome = Rejects, notificationResolves = True \<rparr>"

definition host_capture_fails :: host where
  "host_capture_fails =
     \<lparr> dateNow = 2000, queryActiveTab = Some \<lparr> tabId = Some 7 \<rparr>, reloadResolves = True,
       captureVisibleTab = None,
       pngDecoder = sampleDecoder, fetchOutcome = Responds True, notificationResolves = True \<rparr>"

section \<open>Properties of the Differ\<close>

lemma sampledPositions_set: "set (sampledPositions n) = {p. p < n \<and> 4 dvd p}"
  by (auto simp: sampledPositions_def dvd_def)

lemma sampledPositions_length: "length (sampledPositions n) = (n + 3) div 4"
  by (simp add: sampledPositions_def)

text \<open>The loop counts the offsets \<open>16 j\<close> whose channels differ, for \<open>j\<close> from \<open>k\<close> on.\<close>

lemma diffLoop_count:
  assumes "length refData = 4 * n" and "length curData = 4 * n"
  shows "diffLoop refData curData (16 * k) d =
           d + length (filter (\<lambda>j. channelsDiffer refData curData (16 * j)) [k..<(n + 3) div 4])"
proof (induction "(n + 3) div 4 - k" arbitrary: k d)
  case 0
  then have "(n + 3) div 4 \<le> k" by simp
  then have "\<not> 16 * k + 3 < length refData" using assms by simp
  then show ?case using \<open>(n + 3) div 4 \<le> k\<close>
    by (subst diffLoop.simps) simp
next
  case (Suc m)
  then have lt: "k < (n + 3) div 4" by simp
  then have c1: "16 * k + 3 < length refData" and c2: "\<not> length curData \<le> 16 * k + 2"
    using assms by simp_all
  have ih: "diffLoop refData curData (16 * Suc k) d' =
              d' + length (filter (\<lambda>j. channelsDiffer refData curData (16 * j)) [Suc k..<(n + 3) div 4])"
    for d' using Suc.hyps(1)[of "Suc k" d'] Suc.hyps(2) by simp
  have idx: "16 * k + 16 = 16 * Suc k" by simp
  show ?case
    using c1 c2 lt
    by (subst diffLoop.simps) (simp add: idx ih upt_conv_Cons del: mult_Suc_right)
qed

lemma diffLoop_no_diff:
  "(\<And>j. \<not> channelsDiffer refData curData j) \<Longrightarrow> diffLoop refData curData i d = d"
proof (induction refData curData i d rule: diffLoop.induct)
  case (1 refData curData i diffPixels)
  have nd: "\<not> channelsDiffer refData curData i" by (rule "1.prems")
  show ?case using "1.IH" "1.prems" nd by (subst diffLoop.simps) simp
qed

lemma channelsDiffer_position:
  assumes "4 * p + 2 < length refData" and "4 * p + 2 < length curData"
  shows "channelsDiffer refData curData (4 * p) = positionDiffers refData curData p"
  using assms by (simp add: channelsDiffer_def positionDiffers_def byteAt_def Let_def)

text \<open>On two arrays of \<open>n\<close> pixels the loop counts the different sampled positions.\<close>

lemma diffLoop_positions:
  assumes "length refData = 4 * n" and "length curData = 4 * n"
  shows "diffLoop refData curData 0 0 =
           length (filter (positionDiffers refData curData) (sampledPositions n))"
proof -
  have "diffLoop refData curData (16 * 0) 0 =
          0 + length (filter (\<lambda>j. channelsDiffer refData curData (16 * j)) [0..<(n + 3) div 4])"
    by (rule diffLoop_count [OF assms])
  moreover have "filter (\<lambda>j. channelsDiffer refData curData (16 * j)) [0..<(n + 3) div 4]
      = filter (\<lambda>j. positionDiffers refData curData (4 * j)) [0..<(n + 3) div 4]"
  proof (rule filter_cong [OF refl])
    fix j assume "j \<in> set [0..<(n + 3) div 4]"
    then have "4 * (4 * j) + 2 < 4 * n" by simp
    then show "channelsDiffer refData curData (16 * j) = positionDiffers refData curData (4 * j)"
      using channelsDiffer_position [of "4 * j" refData curData] assms by simp
  qed
  ultimately show ?thesis
    by (simp add: sampledPositions_def filter_map comp_def)
qed

lemma diffLoop_differentPositions:
  assumes "wellFormed ref" and "wellFormed cur"
    and "width ref = width cur" and "height ref = height cur"
  shows "diffLoop (data ref) (data cur) 0 0 = length (differentPositions ref cur)"
proof -
  have "length (data ref) = 4 * (width ref * height ref)"
    and "length (data cur) = 4 * (width ref * height ref)"
    using assms by (simp_all add: wellFormed_def)
  then show ?thesis
    unfolding differentPositions_def by (rule diffLoop_positions)
qed

text \<open>
  What \<open>comparePixels\<close> returns on two samples of the same size: the count of the
  different sampled positions divided by a quarter of the pixel count.
\<close>

lemma comparePixels_quarter:
  assumes wr: "wellFormed ref" and wc: "wellFormed cur"
    and dims: "width ref = width cur" "height ref = height cur"
  shows "comparePixels (data ref) (data cur) =
           \<lparr> hasChanged =
               (CHANGE_THRESHOLD < of_nat (length (differentPositions ref cur))
                                     / (of_nat (width ref * height ref) / 4) * 100),
             changePercentage =
               Finite (toFixed2 (of_nat (length (differentPositions ref cur))
                                   / (of_nat (width ref * height ref) / 4) * 100)),
             detectedText = [],
             missingPhrases =
               (if CHANGE_THRESHOLD < of_nat (length (differentPositions ref cur))
                                        / (of_nat (width ref * height ref) / 4) * 100
                then [''Visual changes detected''] else []) \<rparr>"
proof -
  have cnt: "diffLoop (data ref) (data cur) 0 0 = length (differentPositions ref cur)"
    by (rule diffLoop_differentPositions [OF wr wc dims])
  have sampled: "(of_nat (length (data ref)) :: rat) / 4 / 4 = of_nat (width ref * height ref) / 4"
    using wr by (simp add: wellFormed_def)
  have "0 < width ref * height ref" using wr by (simp add: wellFormed_def)
  then have nz: "(of_nat (width ref * height ref) :: rat) / 4 \<noteq> 0"
    by simp
  show ?thesis
    unfolding comparePixels_def Let_def cnt sampled
    by (simp only: nz if_False jsGreater_def jsToFixed2_def jsnumber.case)
qed


lemma floor_rat_numeral: "\<lfloor>(numeral a / numeral b :: rat)\<rfloor> = numeral a div numeral b"
  by (metis floor_divide_of_int_eq of_int_numeral)


subsection \<open>Rounding and the sample inputs\<close>

lemma floor_add_half: "\<lfloor>(of_int k :: rat) + 1 / 2\<rfloor> = k"
  by (rule floor_unique) simp_all

lemma toFixed2_of_int: "toFixed2 (of_int k) = of_int k"
proof -
  have "(of_int k :: rat) * 100 + 1 / 2 = of_int (k * 100) + 1 / 2" by simp
  then have "\<lfloor>(of_int k :: rat) * 100 + 1 / 2\<rfloor> = k * 100"
    by (simp only: floor_add_half)
  then show ?thesis by (simp add: toFixed2_def)
qed

lemma toFixed2_0: "toFixed2 0 = 0"
  using toFixed2_of_int [of 0] by simp

lemma toFixed2_numeral: "toFixed2 (numeral n) = numeral n"
  using toFixed2_of_int [of "numeral n"] by simp

lemma base64_sample [simp]:
  "stripDataUrl ''black1x1'' = ''black1x1''"
  "stripDataUrl ''white1x1'' = ''white1x1''"
  "stripDataUrl ''data:image/png;base64,black2x2'' = ''black2x2''"
  "stripDataUrl ''data:image/png;base64,corner2x2'' = ''corner2x2''"
  "stripDataUrl ''stripRef'' = ''stripRef''"
  "stripDataUrl ''stripCur'' = ''stripCur''"
  "stripDataUrl ''black101x99'' = ''black101x99''"
  "stripDataUrl ''white101x99'' = ''white101x99''"
  by (simp_all add: stripDataUrl_def)

lemma sample_decode:
  "base64ToImageData sampleDecoder ''black1x1'' = Inr img_black_1x1"
  "base64ToImageData sampleDecoder ''white1x1'' = Inr img_white_1x1"
  "base64ToImageData sampleDecoder ''data:image/png;base64,black2x2'' = Inr img_black_2x2"
  "base64ToImageData sampleDecoder ''data:image/png;base64,corner2x2'' = Inr img_corner_2x2"
  "base64ToImageData sampleDecoder ''stripRef'' = Inr img_strip_ref"
  "base64ToImageData sampleDecoder ''stripCur'' = Inr img_strip_cur"
  "base64ToImageData sampleDecoder ''black101x99'' = Inr img_black_101x99"
  "base64ToImageData sampleDecoder ''white101x99'' = Inr img_white_101x99"
  by (simp_all add: base64ToImageData_def sampleDecoder_def)

lemma sample_wellFormed:
  "wellFormed img_black_1x1" "wellFormed img_white_1x1"
  "wellFormed img_black_2x2" "wellFormed img_corner_2x2"
  "wellFormed img_strip_ref" "wellFormed img_strip_cur"
  "wellFormed img_black_101x99" "wellFormed img_white_101x99"
  by (simp_all add: wellFormed_def img_black_1x1_def img_white_1x1_def img_black_2x2_def
      img_corner_2x2_def img_strip_ref_def img_strip_cur_def img_black_101x99_def
      img_white_101x99_def)









lemma window_pixels: "width img_black_101x99 * height img_black_101x99 = 9999"
  by (simp add: img_black_101x99_def)

lemma window_positionDiffers:
  "p < 9999 \<Longrightarrow> positionDiffers (data img_black_101x99) (data img_white_101x99) p"
  by (simp add: positionDiffers_def img_black_101x99_def img_white_101x99_def)

lemma window_differentPositions:
  "length (differentPositions img_black_101x99 img_white_101x99) = 2500"
proof -
  have "filter (positionDiffers (data img_black_101x99) (data img_white_101x99))
          (sampledPositions 9999) = sampledPositions 9999"
    by (rule filter_True) (simp add: sampledPositions_set window_positionDiffers)
  then show ?thesis
    by (simp add: differentPositions_def window_pixels sampledPositions_length)
qed

subsection \<open>Samples of different dimensions\<close>

text \<open>
  Claim C2. For every pair of image samples whose pixel dimensions differ (in width or in
  height), \<open>compareScreenshots\<close> returns \<open>hasChanged = true\<close> and
  \<open>changePercentage = 100\<close> with the reason \<open>Page layout changed\<close>. The result is the
  same record whatever the pixel arrays hold: the pixel loop is not reached.
\<close>

theorem compareScreenshots_dimensions_differ:
  assumes "base64ToImageData decodePng referenceBase64 = Inr refImageData"
    and "base64ToImageData decodePng currentBase64 = Inr curImageData"
    and "width refImageData \<noteq> width curImageData \<or> height refImageData \<noteq> height curImageData"
  shows "compareScreenshots decodePng referenceBase64 currentBase64 =
           Inr \<lparr> hasChanged = True, changePercentage = Finite 100,
                 detectedText = [], missingPhrases = [''Page layout changed''] \<rparr>"
  using assms by (simp add: compareScreenshots_def)

theorem compareScreenshots_dimensions_differ_witness:
  "width img_black_1x1 = 1 \<and> width img_corner_2x2 = 2
   \<and> compareScreenshots sampleDecoder ''black1x1'' ''data:image/png;base64,corner2x2'' =
       Inr \<lparr> hasChanged = True, changePercentage = Finite 100,
             detectedText = [], missingPhrases = [''Page layout changed''] \<rparr>"
proof -
  have c: "width img_black_1x1 \<noteq> width img_corner_2x2
           \<or> height img_black_1x1 \<noteq> height img_corner_2x2"
    by (simp add: img_black_1x1_def img_corner_2x2_def)
  show ?thesis
    using compareScreenshots_dimensions_differ [OF sample_decode(1) sample_decode(4) c]
    by (simp add: img_black_1x1_def img_corner_2x2_def)
qed

subsection \<open>Identical samples\<close>

text \<open>
  Claim C6. For every pair of image samples of equal dimensions whose pixel data are
  identical, \<open>compareScreenshots\<close> returns \<open>hasChanged = false\<close> and
  \<open>changePercentage = 0\<close>.
\<close>

theorem compareScreenshots_identical:
  assumes "base64ToImageData decodePng referenceBase64 = Inr refImageData"
    and "base64ToImageData decodePng currentBase64 = Inr curImageData"
    and "wellFormed refImageData"
    and "width refImageData = width curImageData"
    and "height refImageData = height curImageData"
    and "data curImageData = data refImageData"
  shows "compareScreenshots decodePng referenceBase64 currentBase64 =
           Inr \<lparr> hasChanged = False, changePercentage = Finite 0,
                 detectedText = [], missingPhrases = [] \<rparr>"
proof -
  have nd: "\<And>j. \<not> channelsDiffer (data refImageData) (data refImageData) j"
    by (simp add: channelsDiffer_def)
  have cnt: "diffLoop (data refImageData) (data refImageData) 0 0 = 0"
    by (rule diffLoop_no_diff [OF nd])
  have "0 < length (data refImageData)"
    using assms(3) by (simp add: wellFormed_def)
  then have nz: "data refImageData \<noteq> []" by simp
  have "comparePixels (data refImageData) (data refImageData) =
          \<lparr> hasChanged = False, changePercentage = Finite 0,
            detectedText = [], missingPhrases = [] \<rparr>"
    using nz by (simp add: comparePixels_def cnt jsGreater_def jsToFixed2_def toFixed2_0
        CHANGE_THRESHOLD_def)
  then show ?thesis
    using assms by (simp add: compareScreenshots_def)
qed

theorem compareScreenshots_identical_witness:
  "compareScreenshots sampleDecoder ''data:image/png;base64,black2x2''
     ''data:image/png;base64,black2x2'' =
     Inr \<lparr> hasChanged = False, changePercentage = Finite 0,
           detectedText = [], missingPhrases = [] \<rparr>"
  by (rule compareScreenshots_identical
      [OF sample_decode(3) sample_decode(3) sample_wellFormed(3) refl refl refl])

subsection \<open>Samples of equal dimensions\<close>




subsection \<open>The range of the percentage\<close>

text \<open>
  Claim C5 says that \<open>changePercentage\<close> lies in the interval from 0 to 100 for all
  image sizes. The divisor of the code is a quarter of the pixel count, not the number
  of loop passes, which is that quarter rounded up. On two images of one pixel that
  differ the loop counts 1, the divisor is 1/4 and the result is 400; on a black and a
  white window of 101 by 99 pixels the loop counts 2500, the divisor is 2499.75 and the
  result is 100.01.
\<close>

theorem compareScreenshots_above_100:
  "compareScreenshots sampleDecoder ''black1x1'' ''white1x1'' =
     Inr \<lparr> hasChanged = True, changePercentage = Finite 400,
           detectedText = [], missingPhrases = [''Visual changes detected''] \<rparr>
   \<and> compareScreenshots sampleDecoder ''black101x99'' ''white101x99'' =
     Inr \<lparr> hasChanged = True, changePercentage = Finite (10001 / 100),
           detectedText = [], missingPhrases = [''Visual changes detected''] \<rparr>"
proof -
  have single: "compareScreenshots sampleDecoder ''black1x1'' ''white1x1'' =
     Inr \<lparr> hasChanged = True, changePercentage = Finite 400,
           detectedText = [], missingPhrases = [''Visual changes detected''] \<rparr>"
    by (simp add: compareScreenshots_def sample_decode img_black_1x1_def img_white_1x1_def
        comparePixels_def diffLoop.simps channelsDiffer_def byteAt_def jsGreater_def
        jsToFixed2_def toFixed2_numeral CHANGE_THRESHOLD_def)
  have w: "width img_black_101x99 = width img_white_101x99"
    and h: "height img_black_101x99 = height img_white_101x99"
    by (simp_all add: img_black_101x99_def img_white_101x99_def)
  have "compareScreenshots sampleDecoder ''black101x99'' ''white101x99'' =
          Inr (comparePixels (data img_black_101x99) (data img_white_101x99))"
    using w h by (simp add: compareScreenshots_def sample_decode)
  then have "compareScreenshots sampleDecoder ''black101x99'' ''white101x99'' =
     Inr \<lparr> hasChanged = True, changePercentage = Finite (10001 / 100),
           detectedText = [], missingPhrases = [''Visual changes detected''] \<rparr>"
    by (simp add: comparePixels_quarter [OF sample_wellFormed(7) sample_wellFormed(8) w h]
        window_differentPositions window_pixels toFixed2_def floor_rat_numeral
        CHANGE_THRESHOLD_def)
  with single show ?thesis by simp
qed

theorem compareScreenshots_above_100_witness:
  "map_sum id changePercentage (compareScreenshots sampleDecoder ''black1x1'' ''white1x1'')
     = Inr (Finite 400)
   \<and> map_sum id changePercentage
         (compareScreenshots sampleDecoder ''black101x99'' ''white101x99'')
     = Inr (Finite (10001 / 100))
   \<and> wellFormed img_black_1x1 \<and> wellFormed img_white_1x1
   \<and> wellFormed img_black_101x99 \<and> wellFormed img_white_101x99"
  using compareScreenshots_above_100 by (simp add: sample_wellFormed)

text \<open>
  When the pixel count is a multiple of 4 the returned percentage is
  \<open>spec_changeMagnitude\<close> (\<open>comparePixels_spec\<close>), which does lie in the interval.
\<close>

lemma toFixed2_range:
  assumes "0 \<le> x" and "x \<le> 100"
  shows "0 \<le> toFixed2 x \<and> toFixed2 x \<le> 100"
proof -
  have "\<lfloor>x * 100 + 1 / 2\<rfloor> \<le> \<lfloor>(of_int 10000 :: rat) + 1 / 2\<rfloor>"
    using assms(2) by (intro floor_mono) simp
  then have up: "\<lfloor>x * 100 + 1 / 2\<rfloor> \<le> 10000"
    by (simp only: floor_add_half)
  have lo: "0 \<le> \<lfloor>x * 100 + 1 / 2\<rfloor>"
    using assms(1) by simp
  have "(of_int \<lfloor>x * 100 + 1 / 2\<rfloor> :: rat) \<le> of_int 10000"
    using up by (simp only: of_int_le_iff)
  then show ?thesis
    using lo by (simp add: toFixed2_def)
qed

lemma spec_rawPercentage_range:
  "0 \<le> spec_rawPercentage ref cur \<and> spec_rawPercentage ref cur \<le> 100"
proof -
  have "length (differentPositions ref cur) \<le> length (sampledPositions (width ref * height ref))"
    by (simp add: differentPositions_def)
  then have "(of_nat (length (differentPositions ref cur)) :: rat)
               \<le> of_nat (length (sampledPositions (width ref * height ref)))"
    by (simp only: of_nat_le_iff)
  then show ?thesis
    by (simp add: spec_rawPercentage_def divide_le_eq)
qed

lemma spec_changeMagnitude_range:
  "0 \<le> spec_changeMagnitude ref cur \<and> spec_changeMagnitude ref cur \<le> 100"
  using spec_rawPercentage_range [of ref cur] toFixed2_range
  by (simp add: spec_changeMagnitude_def)

section \<open>Properties of the Monitor Engine\<close>

subsection \<open>The sample states\<close>


lemma sample_comparison:
  "compareScreenshots sampleDecoder ''data:image/png;base64,black2x2''
     ''data:image/png;base64,corner2x2'' =
     Inr \<lparr> hasChanged = True, changePercentage = Finite 100,
           detectedText = [], missingPhrases = [''Visual changes detected''] \<rparr>"
  by (simp add: compareScreenshots_def sample_decode img_black_2x2_def img_corner_2x2_def
      comparePixels_def diffLoop.simps channelsDiffer_def byteAt_def jsGreater_def
      jsToFixed2_def toFixed2_numeral CHANGE_THRESHOLD_def)

lemma sample_captureAndCompare:
  "captureAndCompare host_changed sampleReference (sampleConfig True) 7 =
     ([TabReload 7, SettleDelay 3000, CaptureTab],
      Inr \<lparr> hasChanged = True, changePercentage = Finite 100,
            detectedText = [], missingPhrases = [''Visual changes detected''] \<rparr>)"
  by (simp add: captureAndCompare_def host_changed_def sampleReference_def sampleConfig_def
      sample_comparison orDefault_def)

lemma sample_capture_fails:
  "captureAndCompare host_capture_fails sampleReference (sampleConfig True) 7 =
     ([TabReload 7, SettleDelay 3000, CaptureTab], Inl (Error ''captureVisibleTab rejected''))"
  by (simp add: captureAndCompare_def host_capture_fails_def sampleConfig_def orDefault_def)

subsection \<open>\<open>getStatus\<close>\<close>

text \<open>
  Claim C10. \<open>getStatus\<close> never fails: for every storage state, also one where no
  monitoring config was ever stored, it returns \<open>success = true\<close> and no error, with
  the stored config (absent when none is stored) as its data.
\<close>

theorem getStatus_succeeds:
  "success (getStatus w) \<and> error (getStatus w) = None
   \<and> responseData (getStatus w) = monitoring (storage w)"
  by (simp add: getStatus_def)

theorem getStatus_succeeds_witness:
  "success (getStatus world_idle) \<and> error (getStatus world_idle) = None
   \<and> responseData (getStatus world_idle) = None"
  using getStatus_succeeds [of world_idle] by (simp add: world_idle_def)

subsection \<open>\<open>stopMonitoring\<close>\<close>

lemma orDefault_idem: "orDefault (orDefault x d) d = orDefault x d"
  by (simp add: orDefault_def)

lemma rebuildConfig_idem:
  "rebuildConfig (Some (rebuildConfig m a)) a = rebuildConfig m a"
  by (cases m) (simp_all add: rebuildConfig_def orDefault_def DEFAULT_INTERVAL_MIN_def
      DEFAULT_INTERVAL_MAX_def DEFAULT_REFRESH_DELAY_def)

text \<open>
  Claim C8. \<open>stopMonitoring\<close> is idempotent: from every starting state, two calls in a
  row both return success with no error, \<open>isActive\<close> is false after each call, and the
  state after the second call (the persisted config and the cleared alarm) is the state
  after the first.
\<close>

theorem stopMonitoring_idempotent:
  "fst (stopMonitoring w) = \<lparr> success = True, responseData = None, error = None \<rparr>
   \<and> fst (stopMonitoring (snd (stopMonitoring w))) =
         \<lparr> success = True, responseData = None, error = None \<rparr>
   \<and> map_option isActive (monitoring (storage (snd (stopMonitoring w)))) = Some False
   \<and> map_option isActive (monitoring (storage (snd (stopMonitoring (snd (stopMonitoring w))))))
        = Some False
   \<and> snd (stopMonitoring (snd (stopMonitoring w))) = snd (stopMonitoring w)"
  by (simp add: stopMonitoring_def Let_def rebuildConfig_idem)
     (simp add: rebuildConfig_def split: option.split)

theorem stopMonitoring_idempotent_witness:
  "fst (stopMonitoring (snd (stopMonitoring world_active))) =
     \<lparr> success = True, responseData = None, error = None \<rparr>
   \<and> snd (stopMonitoring (snd (stopMonitoring world_active))) = snd (stopMonitoring world_active)
   \<and> monitoring (storage (snd (stopMonitoring world_active))) = Some (sampleConfig False)"
proof -
  have "monitoring (storage (snd (stopMonitoring world_active))) = Some (sampleConfig False)"
    by (simp add: stopMonitoring_def Let_def world_active_def rebuildConfig_def sampleConfig_def
        orDefault_def)
  then show ?thesis
    using stopMonitoring_idempotent [of world_active] by simp
qed

subsection \<open>\<open>startMonitoring\<close>\<close>



subsection \<open>The check cycle: the guard\<close>

text \<open>
  Claim C7. When \<open>checkForChanges\<close> runs while the stored config has
  \<open>isActive = false\<close> (or is absent), or while no reference is stored, the cycle ends
  before any capture: the state is unchanged, \<open>lastCheckTime\<close> included, and the trace
  is empty (no storage write, no Telegram message, no local notification).
\<close>

theorem checkForChanges_inactive:
  assumes "reference (storage w) = None \<or> \<not> monitoringActive (monitoring (storage w))"
  shows "checkForChanges h w = (w, [])"
  using assms
  by (auto simp: checkForChanges_def monitoringActive_def Let_def split: option.splits)

theorem checkForChanges_inactive_witness:
  "\<not> monitoringActive (monitoring (storage world_armed))
   \<and> checkForChanges host_changed world_armed = (world_armed, [])"
proof -
  have a: "\<not> monitoringActive (monitoring (storage world_armed))"
    by (simp add: monitoringActive_def world_armed_def sampleConfig_def)
  then have "reference (storage world_armed) = None
             \<or> \<not> monitoringActive (monitoring (storage world_armed))" ..
  from checkForChanges_inactive [OF this] a show ?thesis by simp
qed

subsection \<open>The check cycle: \<open>lastCheckTime\<close>\<close>

lemma captureAndCompare_succeeds_iff:
  "snd (captureAndCompare h ref m tid) = Inr comparison \<longleftrightarrow>
     (autoRefresh m \<longrightarrow> reloadResolves h)
     \<and> (\<exists>shot. captureVisibleTab h = Some shot
          \<and> compareScreenshots (pngDecoder h) (screenshot ref) shot = Inr comparison)"
  by (auto simp: captureAndCompare_def Let_def split: option.splits)

text \<open>
  Claim C3, as amended. In every cycle that passes the \<open>isActive\<close> guard and resolves
  a target tab, \<open>lastCheckTime\<close> is set to the current time and the config persisted
  exactly when the reload (if \<open>autoRefresh\<close> is set), the capture and the comparison
  all succeed; when one of them throws, the stored state is left as it was.
\<close>

theorem checkForChanges_lastCheckTime:
  assumes "reference (storage w) = Some ref"
    and "monitoring (storage w) = Some m"
    and "isActive m"
    and "resolveTab (queryActiveTab h) = Some tid"
  shows "fst (checkForChanges h w) =
           (case snd (captureAndCompare h ref m tid) of
              Inl e \<Rightarrow> w
            | Inr comparison \<Rightarrow>
                w\<lparr> storage := (storage w)\<lparr> monitoring :=
                     Some ((rebuildConfig (Some m) True)\<lparr> lastCheckTime := Some (dateNow h) \<rparr>) \<rparr> \<rparr>)"
  using assms
  by (simp add: checkForChanges_def Let_def split: prod.split sum.split)

theorem checkForChanges_lastCheckTime_witness:
  "fst (checkForChanges host_changed world_active) =
     world_active\<lparr> storage := (storage world_active)\<lparr> monitoring :=
       Some ((sampleConfig True)\<lparr> lastCheckTime := Some 2000 \<rparr>) \<rparr> \<rparr>
   \<and> fst (checkForChanges host_capture_fails world_active) = world_active"
proof -
  have r: "reference (storage world_active) = Some sampleReference"
    and m: "monitoring (storage world_active) = Some (sampleConfig True)"
    by (simp_all add: world_active_def)
  have a: "isActive (sampleConfig True)" by (simp add: sampleConfig_def)
  have t1: "resolveTab (queryActiveTab host_changed) = Some 7"
    and t2: "resolveTab (queryActiveTab host_capture_fails) = Some 7"
    by (simp_all add: resolveTab_def host_changed_def host_capture_fails_def)
  have cfg: "rebuildConfig (Some (sampleConfig True)) True = sampleConfig True"
    by (simp add: rebuildConfig_def sampleConfig_def orDefault_def)
  have now: "dateNow host_changed = 2000" by (simp add: host_changed_def)
  show ?thesis
    using checkForChanges_lastCheckTime [OF r m a t1] checkForChanges_lastCheckTime [OF r m a t2]
    by (simp add: sample_captureAndCompare sample_capture_fails cfg now)
qed

text \<open>
  Claim C3 as stated fails: the cycle below passes the guard and resolves tab 7, the
  capture is rejected at time 2000, and the stored \<open>lastCheckTime\<close> stays 1000.
\<close>

theorem checkForChanges_capture_fails_counterexample:
  "monitoringActive (monitoring (storage world_active))
   \<and> resolveTab (queryActiveTab host_capture_fails) = Some 7
   \<and> captureVisibleTab host_capture_fails = None
   \<and> dateNow host_capture_fails = 2000
   \<and> checkForChanges host_capture_fails world_active =
        (world_active, [TabReload 7, SettleDelay 3000, CaptureTab, ConsoleError ''Check error''])
   \<and> map_option lastCheckTime (monitoring (storage world_active)) = Some (Some 1000)"
  by (simp add: checkForChanges_def Let_def world_active_def sampleConfig_def
      monitoringActive_def resolveTab_def host_capture_fails_def captureAndCompare_def
      orDefault_def)

subsection \<open>The check cycle: notification dispatch\<close>




end
